theory Spec2Isabelle
  imports Main
begin

section \<open>Python values, exceptions and log records\<close>

text \<open>
  Every exception the scripts can raise or catch is a value; a function that may raise
  returns \<open>py_error + 'a\<close> with \<open>Inl\<close> for the exception. The string is the
  exception's message (\<open>str(exc)\<close>).
\<close>

datatype py_error =
    ValueError string
  | EnvironmentError string
  | KeyError string
  | ConnectionError string
  | UniquenessException string
  | OperationalError string
  | InterfaceError string
  | ProgrammingError string
  | IntegrityError string
  | DataError string
  | IndexError string

fun str_exc :: "py_error \<Rightarrow> string" where
  "str_exc (ValueError m) = m"
| "str_exc (EnvironmentError m) = m"
| "str_exc (KeyError m) = m"
| "str_exc (ConnectionError m) = m"
| "str_exc (UniquenessException m) = m"
| "str_exc (OperationalError m) = m"
| "str_exc (InterfaceError m) = m"
| "str_exc (ProgrammingError m) = m"
| "str_exc (IntegrityError m) = m"
| "str_exc (DataError m) = m"
| "str_exc (IndexError m) = m"

text \<open>\<open>f"{last_err}"\<close> where \<open>last_err\<close> is \<open>Optional[Exception]\<close>.\<close>

fun str_opt_exc :: "py_error option \<Rightarrow> string" where
  "str_opt_exc None = ''None''"
| "str_opt_exc (Some e) = str_exc e"

datatype log_level = INFO | WARNING | ERROR

datatype log_arg = ArgInt int | ArgStr string | ArgExc py_error

text \<open>A call \<open>logging.info(fmt, *args)\<close> is kept as its level, format and arguments.\<close>

type_synonym log_record = "log_level \<times> string \<times> log_arg list"

section \<open>Strings\<close>

definition is_ascii_alpha :: "char \<Rightarrow> bool" where
  "is_ascii_alpha c =
     (let n = (of_char c :: nat) in (65 \<le> n \<and> n \<le> 90) \<or> (97 \<le> n \<and> n \<le> 122))"

definition is_ascii_digit :: "char \<Rightarrow> bool" where
  "is_ascii_digit c = (let n = (of_char c :: nat) in 48 \<le> n \<and> n \<le> 57)"

definition lower_char :: "char \<Rightarrow> char" where
  "lower_char c =
     (let n = (of_char c :: nat) in if 65 \<le> n \<and> n \<le> 90 then char_of (n + 32) else c)"

definition lower :: "string \<Rightarrow> string" where
  "lower s = map lower_char s"

text \<open>\<open>s.partition(c)\<close> and \<open>s.rpartition(c)\<close> for a one-character separator.\<close>

definition partition_str :: "char \<Rightarrow> string \<Rightarrow> string \<times> bool \<times> string" where
  "partition_str c s =
     (if c \<in> set s
      then (takeWhile (\<lambda>x. x \<noteq> c) s, True, drop 1 (dropWhile (\<lambda>x. x \<noteq> c) s))
      else (s, False, ''''))"

definition rpartition_str :: "char \<Rightarrow> string \<Rightarrow> string \<times> bool \<times> string" where
  "rpartition_str c s =
     (if c \<in> set s
      then (rev (drop 1 (dropWhile (\<lambda>x. x \<noteq> c) (rev s))), True,
            rev (takeWhile (\<lambda>x. x \<noteq> c) (rev s)))
      else ('''', False, s))"

text \<open>\<open>sep.join(xs)\<close>.\<close>

fun join :: "string \<Rightarrow> string list \<Rightarrow> string" where
  "join sep [] = ''''"
| "join sep [x] = x"
| "join sep (x # y # ys) = x @ sep @ join sep (y # ys)"

text \<open>\<open>s.lstrip(cs)\<close>.\<close>

definition lstrip :: "char list \<Rightarrow> string \<Rightarrow> string" where
  "lstrip cs s = dropWhile (\<lambda>c. c \<in> set cs) s"

text \<open>\<open>repr(s)\<close> of a string without quotes, backslashes or non-printing characters.\<close>

definition repr_str :: "string \<Rightarrow> string" where
  "repr_str s = [CHR 0x27] @ s @ [CHR 0x27]"

text \<open>The value of a string of ASCII decimal digits.\<close>

definition digit_val :: "char \<Rightarrow> nat" where
  "digit_val c = of_char c - 48"

definition nat_of_digits :: "string \<Rightarrow> nat" where
  "nat_of_digits s = foldl (\<lambda>a c. 10 * a + digit_val c) 0 s"

section \<open>The builtin \<open>int(str)\<close>\<close>

text \<open>
  \<open>int(s)\<close> in base 10 on an ASCII string: white space around the literal is dropped, one
  sign is allowed, then digits, where single underscores may stand between two digits.
  Anything else raises \<open>ValueError\<close>. (CPython's limit on the number of digits, 4300 by
  default, raises \<open>ValueError\<close> as well.)
\<close>

definition is_py_space :: "char \<Rightarrow> bool" where
  "is_py_space c =
     (let n = (of_char c :: nat) in (9 \<le> n \<and> n \<le> 13) \<or> (28 \<le> n \<and> n \<le> 32))"

definition strip_space :: "string \<Rightarrow> string" where
  "strip_space s = rev (dropWhile is_py_space (rev (dropWhile is_py_space s)))"

fun digits_us :: "string \<Rightarrow> bool" where
  "digits_us [] = False"
| "digits_us [c] = is_ascii_digit c"
| "digits_us (c # d # r) =
     (is_ascii_digit c \<and>
      (if d = CHR ''_'' then digits_us r else digits_us (d # r)))"

definition py_int :: "string \<Rightarrow> py_error + int" where
  "py_int s =
     (let t = strip_space s;
          neg = (t \<noteq> [] \<and> hd t = CHR ''-'');
          body = (if t \<noteq> [] \<and> (hd t = CHR ''-'' \<or> hd t = CHR ''+'') then tl t else t);
          ds = filter (\<lambda>c. c \<noteq> CHR ''_'') body
      in if \<not> digits_us body then
           Inl (ValueError (''invalid literal for int() with base 10: '' @ repr_str s))
         else if 4300 < length ds then
           Inl (ValueError ''Exceeds the limit (4300 digits) for integer string conversion'')
         else Inr (if neg then - int (nat_of_digits ds) else int (nat_of_digits ds)))"

section \<open>\<open>urllib.parse.urlparse\<close>\<close>

text \<open>
  The standard library's \<open>urlparse\<close> (CPython 3.12) on ASCII strings, as far as
  \<open>_parse_db_env\<close> reads its result: the split into scheme, network location, path, parameters, query and
  fragment, and the properties \<open>username\<close>, \<open>password\<close>, \<open>hostname\<close> and \<open>port\<close>.
  Left out: the check of the address inside a bracketed host and the NFKC check of a
  non-ASCII network location, both of which only add \<open>ValueError\<close>s.
\<close>

record parse_result =
  scheme :: string
  netloc :: string
  path :: string
  params :: string
  query :: string
  fragment :: string

definition scheme_chars :: "char list" where
  "scheme_chars =
     ''abcdefghijklmnopqrstuvwxyzABCDEFGHIJKLMNOPQRSTUVWXYZ0123456789+-.''"

definition uses_params :: "string list" where
  "uses_params = ['''', ''ftp'', ''hdl'', ''prospero'', ''http'', ''imap'', ''https'',
     ''shttp'', ''rtsp'', ''rtspu'', ''sip'', ''sips'', ''mms'', ''sftp'', ''tel'']"

definition c0_control_or_space :: "char \<Rightarrow> bool" where
  "c0_control_or_space c = ((of_char c :: nat) \<le> 32)"

definition unsafe_url_byte :: "char \<Rightarrow> bool" where
  "unsafe_url_byte c = ((of_char c :: nat) \<in> {9, 10, 13})"

text \<open>The scheme is the text before the first colon, when that text is not empty, starts
  with a letter and holds scheme characters only; otherwise the default scheme, empty.\<close>

definition split_scheme :: "string \<Rightarrow> string \<times> string" where
  "split_scheme url =
     (let pre = takeWhile (\<lambda>c. c \<noteq> CHR '':'') url
      in if CHR '':'' \<in> set url \<and> pre \<noteq> [] \<and> is_ascii_alpha (hd url)
            \<and> list_all (\<lambda>c. c \<in> set scheme_chars) pre
         then (lower pre, drop (length pre + 1) url)
         else ('''', url))"

definition is_netloc_delim :: "char \<Rightarrow> bool" where
  "is_netloc_delim c = (c = CHR ''/'' \<or> c = CHR ''?'' \<or> c = CHR ''#'')"

definition splitnetloc :: "string \<Rightarrow> string \<times> string" where
  "splitnetloc url =
     (let rest = drop 2 url
      in (takeWhile (\<lambda>c. \<not> is_netloc_delim c) rest, dropWhile (\<lambda>c. \<not> is_netloc_delim c) rest))"

definition urlsplit :: "string \<Rightarrow> py_error + parse_result" where
  "urlsplit url0 =
     (let url1 = filter (\<lambda>c. \<not> unsafe_url_byte c) (dropWhile c0_control_or_space url0);
          (sch, url2) = split_scheme url1;
          (nl, url3) = (if take 2 url2 = ''//'' then splitnetloc url2 else ('''', url2))
      in if (CHR ''['' \<in> set nl) \<noteq> (CHR '']'' \<in> set nl) then Inl (ValueError ''Invalid IPv6 URL'')
         else
           let (url4, _, frag) = partition_str CHR ''#'' url3;
               (url5, _, qry) = partition_str CHR ''?'' url4
           in Inr \<lparr>scheme = sch, netloc = nl, path = url5, params = '''',
                   query = qry, fragment = frag\<rparr>)"

definition splitparams :: "string \<Rightarrow> string \<times> string" where
  "splitparams url =
     (if CHR ''/'' \<in> set url then
        (let (hd_part, _, last_seg) = rpartition_str CHR ''/'' url
         in if CHR '';'' \<in> set last_seg
            then (case partition_str CHR '';'' last_seg of
                    (a, _, b) \<Rightarrow> (hd_part @ ''/'' @ a, b))
            else (url, ''''))
      else (case partition_str CHR '';'' url of (a, _, b) \<Rightarrow> (a, b)))"

definition urlparse :: "string \<Rightarrow> py_error + parse_result" where
  "urlparse url =
     (case urlsplit url of
        Inl e \<Rightarrow> Inl e
      | Inr r \<Rightarrow>
          if scheme r \<in> set uses_params \<and> CHR '';'' \<in> set (path r)
          then (case splitparams (path r) of (p, ps) \<Rightarrow> Inr (r\<lparr>path := p, params := ps\<rparr>))
          else Inr r)"

text \<open>\<open>_userinfo\<close>: user name and password of the network location, \<open>None\<close> when absent.\<close>

definition userinfo :: "parse_result \<Rightarrow> string option \<times> string option" where
  "userinfo r =
     (case rpartition_str CHR ''@'' (netloc r) of
        (ui, have_info, _) \<Rightarrow>
          if have_info then
            (case partition_str CHR '':'' ui of
               (u, have_password, p) \<Rightarrow> (Some u, if have_password then Some p else None))
          else (None, None))"

definition username :: "parse_result \<Rightarrow> string option" where
  "username r = fst (userinfo r)"

definition password :: "parse_result \<Rightarrow> string option" where
  "password r = snd (userinfo r)"

text \<open>\<open>_hostinfo\<close>: host name and port text; the port is \<open>None\<close> when empty.\<close>

definition hostinfo :: "parse_result \<Rightarrow> string \<times> string option" where
  "hostinfo r =
     (case rpartition_str CHR ''@'' (netloc r) of
        (_, _, hi) \<Rightarrow>
          (case partition_str CHR ''['' hi of
             (_, have_open_br, bracketed) \<Rightarrow>
               let (h, p) =
                     (if have_open_br then
                        (case partition_str CHR '']'' bracketed of
                           (h, _, p0) \<Rightarrow>
                             (case partition_str CHR '':'' p0 of (_, _, p) \<Rightarrow> (h, p)))
                      else (case partition_str CHR '':'' hi of (h, _, p) \<Rightarrow> (h, p)))
               in (h, if p = [] then None else Some p)))"

definition hostname :: "parse_result \<Rightarrow> string option" where
  "hostname r =
     (let h = fst (hostinfo r)
      in if h = [] then None
         else (case partition_str CHR ''%'' h of
                 (h', percent, zone) \<Rightarrow>
                   Some (lower h' @ (if percent then ''%'' else '''') @ zone)))"

definition port :: "parse_result \<Rightarrow> py_error + int option" where
  "port r =
     (case snd (hostinfo r) of
        None \<Rightarrow> Inr None
      | Some p \<Rightarrow>
          if \<not> list_all is_ascii_digit p then
            Inl (ValueError (''Port could not be cast to integer value as '' @ repr_str p))
          else if 4300 < length p then
            Inl (ValueError ''Exceeds the limit (4300 digits) for integer string conversion'')
          else if 65535 < nat_of_digits p then Inl (ValueError ''Port out of range 0-65535'')
          else Inr (Some (int (nat_of_digits p))))"

section \<open>Configuration: \<open>_parse_db_env\<close>\<close>

type_synonym environ = "string \<rightharpoonup> string"

text \<open>\<open>os.getenv(k)\<close> and \<open>os.getenv(k, default)\<close>.\<close>

definition getenv :: "environ \<Rightarrow> string \<Rightarrow> string option" where
  "getenv env k = env k"

definition getenv_default :: "environ \<Rightarrow> string \<Rightarrow> string \<Rightarrow> string" where
  "getenv_default env k d = (case env k of None \<Rightarrow> d | Some v \<Rightarrow> v)"

text \<open>Truth value of an \<open>Optional[str]\<close>: \<open>None\<close> and the empty string are false.\<close>

fun truthy :: "string option \<Rightarrow> bool" where
  "truthy None = False"
| "truthy (Some s) = (s \<noteq> [])"

text \<open>The keyword arguments handed to \<open>psycopg2.connect\<close>.\<close>

record db_config =
  dbname :: "string option"
  user :: "string option"
  password_of :: "string option"
  host :: "string option"
  port_of :: int

definition accepted_schemes :: "string list" where
  "accepted_schemes = [''postgres'', ''postgresql'', ''postgresql+psycopg2'']"

definition required :: "string list" where
  "required = [''DB_NAME'', ''DB_USER'', ''DB_PASSWORD'', ''DB_HOST'']"

definition missing :: "environ \<Rightarrow> string list" where
  "missing env = filter (\<lambda>k. \<not> truthy (getenv env k)) required"

definition missing_message :: "string list \<Rightarrow> string" where
  "missing_message ms =
     ''Missing required env vars: '' @ join '', '' ms @ '' (or provide DATABASE_URL)''"

definition parse_db_env :: "environ \<Rightarrow> py_error + db_config" where
  "parse_db_env env =
     (if truthy (getenv env ''DATABASE_URL'') then
        (case urlparse (the (getenv env ''DATABASE_URL'')) of
           Inl e \<Rightarrow> Inl e
         | Inr parsed \<Rightarrow>
             if scheme parsed \<notin> set accepted_schemes then
               Inl (ValueError (''Unsupported scheme in DATABASE_URL: '' @ scheme parsed))
             else
               (case port parsed of
                  Inl e \<Rightarrow> Inl e
                | Inr p \<Rightarrow>
                    Inr \<lparr>dbname = Some (lstrip ''/'' (path parsed)),
                         user = username parsed,
                         password_of = password parsed,
                         host = hostname parsed,
                         port_of = (case p of None \<Rightarrow> 5432
                                    | Some n \<Rightarrow> if n = 0 then 5432 else n)\<rparr>))
      else if missing env \<noteq> [] then
        Inl (EnvironmentError (missing_message (missing env)))
      else
        (case py_int (getenv_default env ''DB_PORT'' ''5432'') of
           Inl e \<Rightarrow> Inl e
         | Inr p \<Rightarrow>
             Inr \<lparr>dbname = getenv env ''DB_NAME'',
                  user = getenv env ''DB_USER'',
                  password_of = getenv env ''DB_PASSWORD'',
                  host = getenv env ''DB_HOST'',
                  port_of = p\<rparr>))"

section \<open>The relational store\<close>

text \<open>
  The three tables of \<open>DDL_STATEMENTS\<close>. The seeder always supplies a description, a
  status and a user, so the nullable columns of \<open>tasks\<close> hold values.
\<close>

record user_row =
  user_id :: int
  fullname :: string
  email :: string

record status_row =
  status_id :: int
  name :: string

record task_row =
  task_id :: int
  title :: string
  description :: string
  task_status_id :: int
  task_user_id :: int

record database =
  tables :: "string set"
  users :: "user_row list"
  status :: "status_row list"
  tasks :: "task_row list"

text \<open>
  What the server holds: the committed data, the three \<open>SERIAL\<close> sequences (which no
  rollback winds back) and the statements it will reject for a reason outside the data
  (a lost link, a missing privilege): statement number \<open>k\<close> of the session fails when
  \<open>fault k\<close>.
\<close>

record server =
  committed :: database
  users_seq :: int
  status_seq :: int
  tasks_seq :: int
  fault :: "nat \<Rightarrow> bool"
  nstmt :: nat

text \<open>
  A psycopg2 connection to it: \<open>working\<close> is the data as the open transaction sees it,
  \<open>aborted\<close> says that a statement of the transaction has failed, after which the
  server refuses every statement until the rollback.
\<close>

record connection = server +
  autocommit :: bool
  closed :: bool
  aborted :: bool
  working :: database

type_synonym 'a db_result = "(py_error + 'a) \<times> connection"

definition stmt_failed :: "connection \<Rightarrow> connection" where
  "stmt_failed c = c\<lparr>nstmt := Suc (nstmt c), aborted := \<not> autocommit c,
                     working := (if autocommit c then committed c else working c)\<rparr>"

definition stmt_done :: "database \<Rightarrow> connection \<Rightarrow> connection" where
  "stmt_done d c = c\<lparr>committed := (if autocommit c then d else committed c),
                     nstmt := Suc (nstmt c), working := d\<rparr>"

text \<open>What stops a statement before the server looks at it.\<close>

definition stmt_guard :: "connection \<Rightarrow> (py_error \<times> connection) option" where
  "stmt_guard c =
     (if closed c then Some (InterfaceError ''connection already closed'', c)
      else if aborted c then
        Some (ProgrammingError ''current transaction is aborted, commands ignored until end of transaction block'', c)
      else if fault c (nstmt c) then
        Some (OperationalError ''server closed the connection unexpectedly'', stmt_failed c)
      else None)"

text \<open>\<open>conn.cursor()\<close>.\<close>

definition cursor :: "connection \<Rightarrow> py_error + unit" where
  "cursor c = (if closed c then Inl (InterfaceError ''connection already closed'') else Inr ())"

text \<open>\<open>CREATE TABLE IF NOT EXISTS t (...)\<close>, with the tables its foreign keys reference.\<close>

datatype ddl = CreateTableIfNotExists string "string list"

definition DDL_STATEMENTS :: "ddl list" where
  "DDL_STATEMENTS =
     [CreateTableIfNotExists ''users'' [],
      CreateTableIfNotExists ''status'' [],
      CreateTableIfNotExists ''tasks'' [''status'', ''users'']]"

definition create_empty :: "string \<Rightarrow> database \<Rightarrow> database" where
  "create_empty t d =
     (let d1 = d\<lparr>tables := insert t (tables d)\<rparr>
      in if t = ''users'' then d1\<lparr>users := []\<rparr>
         else if t = ''status'' then d1\<lparr>status := []\<rparr>
         else if t = ''tasks'' then d1\<lparr>tasks := []\<rparr>
         else d1)"

fun execute_ddl :: "ddl \<Rightarrow> connection \<Rightarrow> unit db_result" where
  "execute_ddl (CreateTableIfNotExists t refs) c =
     (case stmt_guard c of
        Some (e, c') \<Rightarrow> (Inl e, c')
      | None \<Rightarrow>
          if t \<in> tables (working c) then (Inr (), stmt_done (working c) c)
          else if \<not> set refs \<subseteq> tables (working c) then
            (Inl (ProgrammingError ''referenced relation does not exist''), stmt_failed c)
          else (Inr (), stmt_done (create_empty t (working c)) c))"






text \<open>\<open>conn.commit()\<close>, \<open>conn.rollback()\<close> and \<open>conn.close()\<close>. Committing an aborted
  transaction rolls it back; closing drops whatever is not committed.\<close>

definition commit :: "connection \<Rightarrow> unit db_result" where
  "commit c =
     (if closed c then (Inl (InterfaceError ''connection already closed''), c)
      else if aborted c then (Inr (), c\<lparr>aborted := False, working := committed c\<rparr>)
      else if fault c (nstmt c) then
        (Inl (OperationalError ''server closed the connection unexpectedly''),
         c\<lparr>nstmt := Suc (nstmt c), aborted := \<not> autocommit c\<rparr>)
      else (Inr (), c\<lparr>committed := working c, nstmt := Suc (nstmt c)\<rparr>))"

definition rollback :: "connection \<Rightarrow> unit db_result" where
  "rollback c =
     (if closed c then (Inl (InterfaceError ''connection already closed''), c)
      else (Inr (), c\<lparr>aborted := False, working := committed c\<rparr>))"

definition close :: "connection \<Rightarrow> connection" where
  "close c = c\<lparr>closed := True, aborted := False, working := committed c\<rparr>"

text \<open>Leaving \<open>with conn:\<close>: commit when the block ended normally, else roll back and let
  the block's exception go on.\<close>

definition with_exit :: "py_error + unit \<Rightarrow> connection \<Rightarrow> unit db_result" where
  "with_exit r c =
     (case r of
        Inr _ \<Rightarrow> commit c
      | Inl e \<Rightarrow> (case rollback c of (Inl e', c') \<Rightarrow> (Inl e', c') | (Inr _, c') \<Rightarrow> (Inl e, c')))"

text \<open>\<open>psycopg2.extras.execute_batch\<close>: the statement once per argument tuple, in order,
  up to the first that fails. (Its pages only group statements into round trips.)\<close>

fun execute_batch :: "('a \<Rightarrow> connection \<Rightarrow> unit db_result) \<Rightarrow> 'a list \<Rightarrow> connection \<Rightarrow> unit db_result" where
  "execute_batch stmt [] c = (Inr (), c)"
| "execute_batch stmt (a # as) c =
     (case stmt a c of
        (Inl e, c') \<Rightarrow> (Inl e, c')
      | (Inr _, c') \<Rightarrow> execute_batch stmt as c')"

section \<open>The process and its surroundings\<close>

text \<open>
  Everything outside the connection that the scripts read or change: the environment
  variables, the clock (in milliseconds), what each call of \<open>psycopg2.connect\<close> will do
  (how long it takes, and the exception it raises, if any), the server, the random
  draws behind \<open>faker\<close> and \<open>random\<close> with the texts the providers make of a draw,
  the cache of \<open>fake.unique\<close>, and the log. The clock moves while a connection
  attempt runs and while the process sleeps; two readings with nothing of the two in
  between are equal.
\<close>

record world =
  environ_of :: environ
  clock :: int
  connect_script :: "nat \<Rightarrow> nat \<times> py_error option"
  n_connects :: nat
  the_server :: server
  draws :: "nat \<Rightarrow> nat"
  n_draws :: nat
  name_of :: "nat \<Rightarrow> string"
  email_of :: "nat \<Rightarrow> string"
  sentence_of :: "nat \<Rightarrow> string"
  text_of :: "nat \<Rightarrow> string"
  unique_seen :: "string list"
  logs :: "log_record list"

definition log :: "log_level \<Rightarrow> string \<Rightarrow> log_arg list \<Rightarrow> world \<Rightarrow> world" where
  "log lvl fmt args w = w\<lparr>logs := logs w @ [(lvl, fmt, args)]\<rparr>"

text \<open>\<open>time.sleep\<close>, in milliseconds.\<close>

definition sleep :: "nat \<Rightarrow> world \<Rightarrow> world" where
  "sleep ms w = w\<lparr>clock := clock w + int ms\<rparr>"

text \<open>A new connection is open, not in autocommit mode, and sees the committed data.\<close>

definition new_connection :: "server \<Rightarrow> connection" where
  "new_connection s =
     \<lparr>committed = committed s, users_seq = users_seq s, status_seq = status_seq s,
      tasks_seq = tasks_seq s, fault = fault s, nstmt = nstmt s,
      autocommit = False, closed = False, aborted = False, working = committed s\<rparr>"

text \<open>\<open>psycopg2.connect(**cfg)\<close>: what attempt number \<open>n_connects\<close> does is the world's to
  say, whatever the parameters.\<close>

definition psycopg2_connect :: "world \<Rightarrow> (py_error + connection) \<times> world" where
  "psycopg2_connect w =
     (case connect_script w (n_connects w) of
        (d, r) \<Rightarrow>
          let w' = w\<lparr>clock := clock w + int d, n_connects := Suc (n_connects w)\<rparr>
          in (case r of
                Some e \<Rightarrow> (Inl e, w')
              | None \<Rightarrow> (Inr (new_connection (the_server w)), w')))"

subsection \<open>\<open>get_connection\<close>\<close>

text \<open>The \<open>while\<close> loop of \<open>get_connection\<close>, from the state at its head.\<close>

function connect_loop :: "int \<Rightarrow> nat \<Rightarrow> py_error option \<Rightarrow> world \<Rightarrow> (py_error + connection) \<times> world" where
  "connect_loop deadline attempt last_err w =
     (if clock w < deadline then
        (case psycopg2_connect w of
           (Inr conn, w1) \<Rightarrow>
             (Inr (conn\<lparr>autocommit := False\<rparr>),
              log INFO ''Connected to DB on attempt %d.'' [ArgInt (int (attempt + 1))] w1)
         | (Inl exc, w1) \<Rightarrow>
             connect_loop deadline (attempt + 1) (Some exc)
               (sleep 1500
                 (log WARNING ''DB not ready (attempt %d): %s''
                    [ArgInt (int (attempt + 1)), ArgExc exc] w1)))
      else
        (Inl (ConnectionError
               (''Could not connect to DB within timeout: '' @ str_opt_exc last_err)), w))"
  by pat_completeness auto
termination
  by (relation "measure (\<lambda>(deadline, attempt, last_err, w). nat (deadline - clock w))")
     (auto simp: psycopg2_connect_def sleep_def log_def Let_def split: prod.splits option.splits)

declare connect_loop.simps [simp del]

definition get_connection :: "int \<Rightarrow> world \<Rightarrow> (py_error + connection) \<times> world" where
  "get_connection max_wait_seconds w =
     (case parse_db_env (environ_of w) of
        Inl e \<Rightarrow> (Inl e, w)
      | Inr cfg \<Rightarrow> connect_loop (clock w + 1000 * max_wait_seconds) 0 None w)"

subsection \<open>\<open>faker\<close> and \<open>random\<close>\<close>










section \<open>The seeder\<close>










section \<open>The schema bootstrapper\<close>

text \<open>\<open>os.environ[k]\<close>.\<close>

definition environ_get :: "environ \<Rightarrow> string \<Rightarrow> py_error + string" where
  "environ_get env k = (case env k of None \<Rightarrow> Inl (KeyError (repr_str k)) | Some v \<Rightarrow> Inr v)"

definition get_db_connection :: "world \<Rightarrow> (py_error + connection) \<times> world" where
  "get_db_connection w =
     (case environ_get (environ_of w) ''DB_NAME'' of Inl e \<Rightarrow> (Inl e, w) | Inr _ \<Rightarrow>
      (case environ_get (environ_of w) ''DB_USER'' of Inl e \<Rightarrow> (Inl e, w) | Inr _ \<Rightarrow>
      (case environ_get (environ_of w) ''DB_PASSWORD'' of Inl e \<Rightarrow> (Inl e, w) | Inr _ \<Rightarrow>
      (case environ_get (environ_of w) ''DB_HOST'' of Inl e \<Rightarrow> (Inl e, w) | Inr _ \<Rightarrow>
      (case environ_get (environ_of w) ''DB_PORT'' of Inl e \<Rightarrow> (Inl e, w) | Inr _ \<Rightarrow>
         psycopg2_connect w)))))"

definition create_tables :: "connection \<Rightarrow> ddl list \<Rightarrow> unit db_result" where
  "create_tables c statements =
     (case cursor c of
        Inl e \<Rightarrow> (Inl e, c)
      | Inr _ \<Rightarrow>
          (case execute_batch execute_ddl statements c of
             (Inl e, c') \<Rightarrow> (Inl e, c')
           | (Inr _, c') \<Rightarrow> commit c'))"

text \<open>\<open>main\<close> of the bootstrapper: the exit code, the connection as it is left, the world.\<close>

definition bootstrap_main :: "world \<Rightarrow> int \<times> connection option \<times> world" where
  "bootstrap_main w =
     (case get_db_connection w of
        (Inl exc, w1) \<Rightarrow> (1, None, log ERROR ''Failed to create tables: %s'' [ArgExc exc] w1)
      | (Inr conn, w1) \<Rightarrow>
          (case create_tables conn DDL_STATEMENTS of
             (Inl exc, c1) \<Rightarrow>
               (case with_exit (Inl exc) c1 of
                  (Inl exc', c2) \<Rightarrow>
                    (1, Some c2, log ERROR ''Failed to create tables: %s'' [ArgExc exc'] w1)
                | (Inr _, c2) \<Rightarrow> (0, Some c2, w1))
           | (Inr _, c1) \<Rightarrow>
               let w2 = log INFO ''Tables created successfully (or already existed).'' [] w1 in
               (case with_exit (Inr ()) c1 of
                  (Inl exc', c2) \<Rightarrow>
                    (1, Some c2, log ERROR ''Failed to create tables: %s'' [ArgExc exc'] w2)
                | (Inr _, c2) \<Rightarrow> (0, Some c2, w2))))"

section \<open>Notions used to state the properties\<close>

text \<open>Attempt number \<open>k\<close> of \<open>psycopg2.connect\<close> raises.\<close>

definition attempt_fails :: "world \<Rightarrow> nat \<Rightarrow> bool" where
  "attempt_fails w k = (snd (connect_script w k) \<noteq> None)"

text \<open>The time the next \<open>n\<close> attempts take when each is followed by the sleep of 1.5 s.\<close>

definition elapsed :: "world \<Rightarrow> nat \<Rightarrow> int" where
  "elapsed w n = (\<Sum>i<n. int (fst (connect_script w (n_connects w + i))) + 1500)"








text \<open>
  One statement's effect on a transaction that is not in autocommit mode: the committed
  data, the mode and the open/closed state stay.
\<close>

definition tx_step :: "connection \<Rightarrow> connection \<Rightarrow> bool" where
  "tx_step c c' \<longleftrightarrow> committed c' = committed c \<and> \<not> autocommit c' \<and> closed c' = closed c"


section \<open>Sample inputs\<close>

definition env_only_name :: environ where
  "env_only_name = map_of [(''DB_NAME'', ''taskdb''), (''DB_HOST'', '''')]"

definition env_no_port :: environ where
  "env_no_port = map_of [(''DB_NAME'', ''taskdb''), (''DB_USER'', ''u''),
     (''DB_PASSWORD'', ''p''), (''DB_HOST'', ''localhost'')]"



definition env_mysql :: environ where
  "env_mysql = map_of [(''DATABASE_URL'', ''mysql://u:p@localhost:3306/taskdb'')]"

definition empty_database :: database where
  "empty_database = \<lparr>tables = {}, users = [], status = [], tasks = []\<rparr>"

definition fresh_server :: server where
  "fresh_server = \<lparr>committed = empty_database, users_seq = 1, status_seq = 1, tasks_seq = 1,
     fault = (\<lambda>k. False), nstmt = 0\<rparr>"

definition script_third_time :: "nat \<Rightarrow> nat \<times> py_error option" where
  "script_third_time k =
     (if k < 2 then (100, Some (OperationalError ''connection refused'')) else (100, None))"

definition script_down :: "nat \<Rightarrow> nat \<times> py_error option" where
  "script_down k = (8500, Some (OperationalError ''connection refused''))"

definition sample_world :: "environ \<Rightarrow> (nat \<Rightarrow> nat \<times> py_error option) \<Rightarrow> server \<Rightarrow> world" where
  "sample_world env script srv =
     \<lparr>environ_of = env, clock = 0, connect_script = script, n_connects = 0, the_server = srv,
      draws = (\<lambda>k. k), n_draws = 0,
      name_of = (\<lambda>r. ''name''), email_of = (\<lambda>r. ''user@example.org''),
      sentence_of = (\<lambda>r. ''title''), text_of = (\<lambda>r. ''text''),
      unique_seen = [], logs = []\<rparr>"

definition w_retry :: world where
  "w_retry = sample_world env_no_port script_third_time fresh_server"

definition w_down :: world where
  "w_down = sample_world env_no_port script_down fresh_server"

definition cfg_no_port :: db_config where
  "cfg_no_port = \<lparr>dbname = Some ''taskdb'', user = Some ''u'', password_of = Some ''p'',
          host = Some ''localhost'', port_of = 5432\<rparr>"
















definition env_full :: environ where
  "env_full = map_of [(''DB_NAME'', ''taskdb''), (''DB_USER'', ''u''),
     (''DB_PASSWORD'', ''p''), (''DB_HOST'', ''localhost''), (''DB_PORT'', ''5432'')]"

definition script_up :: "nat \<Rightarrow> nat \<times> py_error option" where
  "script_up k = (50, None)"

definition faulty_server :: server where
  "faulty_server = fresh_server\<lparr>fault := (\<lambda>k. k = 2)\<rparr>"

definition w_boot_fault :: world where
  "w_boot_fault = sample_world env_full script_up faulty_server"

definition w_boot :: world where
  "w_boot = sample_world env_full script_up fresh_server"

section \<open>Configuration resolver\<close>

lemmas url_defs = urlparse_def urlsplit_def split_scheme_def splitnetloc_def is_netloc_delim_def
  partition_str_def rpartition_str_def lower_def lower_char_def is_ascii_alpha_def
  scheme_chars_def uses_params_def c0_control_or_space_def unsafe_url_byte_def
  userinfo_def username_def password_def hostinfo_def hostname_def port_def
  is_ascii_digit_def nat_of_digits_def digit_val_def lstrip_def Let_def

lemmas int_defs = py_int_def strip_space_def is_py_space_def is_ascii_digit_def
  nat_of_digits_def digit_val_def repr_str_def Let_def

lemma py_int_5432: "py_int ''5432'' = Inr 5432"
  by (simp add: int_defs)









lemma urlparse_mysql:
  "urlparse ''mysql://u:p@localhost:3306/taskdb'' =
     Inr \<lparr>scheme = ''mysql'', netloc = ''u:p@localhost:3306'', path = ''/taskdb'',
          params = '''', query = '''', fragment = ''''\<rparr>"
  by (simp add: url_defs)



section \<open>Connection manager\<close>

lemma elapsed_Suc_shift:
  assumes "connect_script w2 = connect_script w" "n_connects w2 = Suc (n_connects w)"
  shows "elapsed w (Suc n) = int (fst (connect_script w (n_connects w))) + 1500 + elapsed w2 n"
  using assms by (simp add: elapsed_def sum.lessThan_Suc_shift del: sum.lessThan_Suc)

text \<open>
  What the retry loop has done when it ends, started at deadline \<open>dl\<close> with \<open>le\<close> as the
  last failure: it made \<open>n\<close> attempts, all but possibly the last failed, each failure was
  followed by the sleep, and every attempt began before the deadline.
\<close>

lemma connect_loop_spec:
  "connect_loop dl a le w = (r, w') \<Longrightarrow>
   \<exists>n. n_connects w' = n_connects w + n \<and> connect_script w' = connect_script w \<and>
     (\<forall>i<n. i + 1 < n \<longrightarrow> attempt_fails w (n_connects w + i)) \<and>
     (case r of
        Inr conn \<Rightarrow> 0 < n \<and> \<not> attempt_fails w (n_connects w + n - 1) \<and>
           \<not> closed conn \<and> \<not> autocommit conn \<and>
           clock w + elapsed w (n - 1) < dl \<and>
           clock w' = clock w + elapsed w n - 1500
      | Inl e \<Rightarrow> (0 < n \<longrightarrow> attempt_fails w (n_connects w + n - 1) \<and> clock w + elapsed w (n - 1) < dl) \<and>
           e = ConnectionError (''Could not connect to DB within timeout: '' @
                 str_opt_exc (if n = 0 then le else snd (connect_script w (n_connects w + n - 1)))) \<and>
           dl \<le> clock w' \<and> clock w' = clock w + elapsed w n)"
proof (induction dl a le w arbitrary: r w' rule: connect_loop.induct)
  case (1 dl a le w)
  show ?case
  proof (cases "clock w < dl")
    case False
    with "1.prems" have "r = Inl (ConnectionError (''Could not connect to DB within timeout: '' @ str_opt_exc le))" "w' = w"
      by (auto simp: connect_loop.simps)
    with False show ?thesis
      by (intro exI[of _ 0]) (simp add: elapsed_def)
  next
    case True
    obtain d res where scr: "connect_script w (n_connects w) = (d, res)"
      by (cases "connect_script w (n_connects w)")
    define w1 where "w1 = w\<lparr>clock := clock w + int d, n_connects := Suc (n_connects w)\<rparr>"
    show ?thesis
    proof (cases res)
      case None
      with scr have pc: "psycopg2_connect w = (Inr (new_connection (the_server w)), w1)"
        by (simp add: psycopg2_connect_def w1_def)
      with True "1.prems" have r: "r = Inr ((new_connection (the_server w))\<lparr>autocommit := False\<rparr>)"
        and w': "w' = log INFO ''Connected to DB on attempt %d.'' [ArgInt (int (a + 1))] w1"
        by (auto simp: connect_loop.simps)
      show ?thesis
        using r w' scr None True
        by (intro exI[of _ 1]) (simp add: new_connection_def log_def w1_def attempt_fails_def elapsed_def)
    next
      case (Some exc)
      with scr have pc: "psycopg2_connect w = (Inl exc, w1)"
        by (simp add: psycopg2_connect_def w1_def)
      define w2 where "w2 = sleep 1500 (log WARNING ''DB not ready (attempt %d): %s''
                    [ArgInt (int (a + 1)), ArgExc exc] w1)"
      from True pc "1.prems" have rec: "connect_loop dl (a + 1) (Some exc) w2 = (r, w')"
        by (simp add: connect_loop.simps w2_def)
      have w2: "connect_script w2 = connect_script w" "n_connects w2 = Suc (n_connects w)"
        "clock w2 = clock w + int d + 1500"
        by (simp_all add: w2_def w1_def sleep_def log_def)
      from "1.IH"[OF True pc[symmetric] refl rec[unfolded w2_def], folded w2_def]
      obtain n where n: "n_connects w' = n_connects w2 + n" "connect_script w' = connect_script w2"
        "\<forall>i<n. i + 1 < n \<longrightarrow> attempt_fails w2 (n_connects w2 + i)"
        "(case r of
        Inr conn \<Rightarrow> 0 < n \<and> \<not> attempt_fails w2 (n_connects w2 + n - 1) \<and>
           \<not> closed conn \<and> \<not> autocommit conn \<and>
           clock w2 + elapsed w2 (n - 1) < dl \<and>
           clock w' = clock w2 + elapsed w2 n - 1500
      | Inl e \<Rightarrow> (0 < n \<longrightarrow> attempt_fails w2 (n_connects w2 + n - 1) \<and> clock w2 + elapsed w2 (n - 1) < dl) \<and>
           e = ConnectionError (''Could not connect to DB within timeout: '' @
                 str_opt_exc (if n = 0 then Some exc else snd (connect_script w2 (n_connects w2 + n - 1)))) \<and>
           dl \<le> clock w' \<and> clock w' = clock w2 + elapsed w2 n)"
        by blast
      have af: "attempt_fails w2 k = attempt_fails w k" for k
        by (simp add: attempt_fails_def w2)
      have f0: "attempt_fails w (n_connects w)"
        using scr Some by (simp add: attempt_fails_def)
      have el: "elapsed w (Suc m) = int d + 1500 + elapsed w2 m" for m
        using elapsed_Suc_shift[OF w2(1,2)] scr by simp
      have el0: "elapsed w 0 = 0" by (simp add: elapsed_def)
      have fails: "\<forall>i<Suc n. i + 1 < Suc n \<longrightarrow> attempt_fails w (n_connects w + i)"
      proof (intro allI impI)
        fix i assume "i < Suc n" "i + 1 < Suc n"
        show "attempt_fails w (n_connects w + i)"
        proof (cases i)
          case 0 then show ?thesis using f0 by simp
        next
          case (Suc j)
          with \<open>i + 1 < Suc n\<close> n(3) have "attempt_fails w2 (n_connects w2 + j)" by simp
          then show ?thesis using Suc w2 af by simp
        qed
      qed
      show ?thesis
      proof (intro exI[of _ "Suc n"] conjI)
        show "n_connects w' = n_connects w + Suc n" using n(1) w2 by simp
        show "connect_script w' = connect_script w" using n(2) w2 by simp
        show "\<forall>i<Suc n. i + 1 < Suc n \<longrightarrow> attempt_fails w (n_connects w + i)" by (rule fails)
        show "case r of
        Inr conn \<Rightarrow> 0 < Suc n \<and> \<not> attempt_fails w (n_connects w + Suc n - 1) \<and>
           \<not> closed conn \<and> \<not> autocommit conn \<and>
           clock w + elapsed w (Suc n - 1) < dl \<and>
           clock w' = clock w + elapsed w (Suc n) - 1500
      | Inl e \<Rightarrow> (0 < Suc n \<longrightarrow> attempt_fails w (n_connects w + Suc n - 1) \<and> clock w + elapsed w (Suc n - 1) < dl) \<and>
           e = ConnectionError (''Could not connect to DB within timeout: '' @
                 str_opt_exc (if Suc n = 0 then le else snd (connect_script w (n_connects w + Suc n - 1)))) \<and>
           dl \<le> clock w' \<and> clock w' = clock w + elapsed w (Suc n)"
        proof (cases n)
          case 0
          then show ?thesis using n(4) w2 af f0 el[of 0] el0 True scr Some
            by (auto split: sum.splits simp: elapsed_def)
        next
          case (Suc m)
          then show ?thesis using n(4) w2 af el[of n] el[of m]
            by (auto split: sum.splits)
        qed
      qed
    qed
  qed
qed

lemma parse_env_no_port: "parse_db_env env_no_port = Inr cfg_no_port"
  by (simp add: parse_db_env_def missing_def required_def getenv_def getenv_default_def
        env_no_port_def py_int_5432 cfg_no_port_def)

lemma parse_env_only_name:
  "parse_db_env env_only_name =
     Inl (EnvironmentError
       ''Missing required env vars: DB_USER, DB_PASSWORD, DB_HOST (or provide DATABASE_URL)'')"
  by (simp add: parse_db_env_def missing_def required_def getenv_def env_only_name_def
        missing_message_def)

lemma parse_env_mysql:
  "parse_db_env env_mysql = Inl (ValueError ''Unsupported scheme in DATABASE_URL: mysql'')"
  by (simp add: parse_db_env_def getenv_def env_mysql_def urlparse_mysql accepted_schemes_def)

lemma get_connection_retry:
  "get_connection 30 w_retry =
     (Inr (new_connection fresh_server),
      w_retry\<lparr>clock := 3300, n_connects := 3,
        logs := [(WARNING, ''DB not ready (attempt %d): %s'',
                   [ArgInt 1, ArgExc (OperationalError ''connection refused'')]),
                 (WARNING, ''DB not ready (attempt %d): %s'',
                   [ArgInt 2, ArgExc (OperationalError ''connection refused'')]),
                 (INFO, ''Connected to DB on attempt %d.'', [ArgInt 3])]\<rparr>)"
  by (simp add: get_connection_def w_retry_def sample_world_def parse_env_no_port
       connect_loop.simps psycopg2_connect_def script_third_time_def log_def sleep_def
       new_connection_def)

lemma get_connection_down:
  "get_connection 30 w_down =
     (Inl (ConnectionError ''Could not connect to DB within timeout: connection refused''),
      w_down\<lparr>clock := 30000, n_connects := 3,
        logs := [(WARNING, ''DB not ready (attempt %d): %s'',
                   [ArgInt 1, ArgExc (OperationalError ''connection refused'')]),
                 (WARNING, ''DB not ready (attempt %d): %s'',
                   [ArgInt 2, ArgExc (OperationalError ''connection refused'')]),
                 (WARNING, ''DB not ready (attempt %d): %s'',
                   [ArgInt 3, ArgExc (OperationalError ''connection refused'')])]\<rparr>)"
  by (simp add: get_connection_def w_down_def sample_world_def parse_env_no_port
       connect_loop.simps psycopg2_connect_def script_down_def log_def sleep_def)

text \<open>
  C8 (as amended). A call of \<open>get_connection\<close> whose configuration resolves makes some
  number \<open>n\<close> of attempts, each begun before the deadline of \<open>max_wait_seconds\<close> and each
  failed one followed by the sleep of 1.5 s, and then either returns the connection of
  the first attempt that succeeds, open and with autocommit off, or, the deadline
  reached, raises the \<open>ConnectionError\<close> whose message embeds the failure of the last
  attempt (\<open>None\<close> when there was no attempt).
\<close>

theorem get_connection_outcome:
  assumes "parse_db_env (environ_of w) = Inr cfg"
    and "get_connection max_wait_seconds w = (r, w')"
  shows "\<exists>n. n_connects w' = n_connects w + n \<and> connect_script w' = connect_script w \<and>
     (\<forall>i<n. i + 1 < n \<longrightarrow> attempt_fails w (n_connects w + i)) \<and>
     (case r of
        Inr conn \<Rightarrow> 0 < n \<and> \<not> attempt_fails w (n_connects w + n - 1) \<and>
           \<not> closed conn \<and> \<not> autocommit conn \<and>
           clock w + elapsed w (n - 1) < clock w + 1000 * max_wait_seconds \<and>
           clock w' = clock w + elapsed w n - 1500
      | Inl e \<Rightarrow>
           (0 < n \<longrightarrow> attempt_fails w (n_connects w + n - 1) \<and>
                      clock w + elapsed w (n - 1) < clock w + 1000 * max_wait_seconds) \<and>
           e = ConnectionError (''Could not connect to DB within timeout: '' @
                 str_opt_exc (if n = 0 then None
                              else snd (connect_script w (n_connects w + n - 1)))) \<and>
           clock w + 1000 * max_wait_seconds \<le> clock w' \<and>
           clock w' = clock w + elapsed w n)"
proof -
  from assms have "connect_loop (clock w + 1000 * max_wait_seconds) 0 None w = (r, w')"
    by (simp add: get_connection_def)
  then show ?thesis by (rule connect_loop_spec)
qed

theorem get_connection_outcome_witness:
  "parse_db_env (environ_of w_retry) = Inr cfg_no_port \<and>
   get_connection 30 w_retry =
     (Inr (new_connection fresh_server),
      w_retry\<lparr>clock := 3300, n_connects := 3,
        logs := [(WARNING, ''DB not ready (attempt %d): %s'',
                   [ArgInt 1, ArgExc (OperationalError ''connection refused'')]),
                 (WARNING, ''DB not ready (attempt %d): %s'',
                   [ArgInt 2, ArgExc (OperationalError ''connection refused'')]),
                 (INFO, ''Connected to DB on attempt %d.'', [ArgInt 3])]\<rparr>) \<and>
   \<not> closed (new_connection fresh_server) \<and> \<not> autocommit (new_connection fresh_server) \<and>
   parse_db_env (environ_of w_down) = Inr cfg_no_port \<and>
   fst (get_connection 30 w_down) =
     Inl (ConnectionError ''Could not connect to DB within timeout: connection refused'') \<and>
   clock w_down + 1000 * 30 \<le> clock (snd (get_connection 30 w_down))"
proof -
  have e1: "parse_db_env (environ_of w_retry) = Inr cfg_no_port"
    by (simp add: w_retry_def sample_world_def parse_env_no_port)
  have e2: "parse_db_env (environ_of w_down) = Inr cfg_no_port"
    by (simp add: w_down_def sample_world_def parse_env_no_port)
  from get_connection_outcome[OF e1 get_connection_retry]
  have a: "\<not> closed (new_connection fresh_server) \<and> \<not> autocommit (new_connection fresh_server)"
    by auto
  from get_connection_outcome[OF e2 get_connection_down]
  have b: "clock w_down + 1000 * 30
      \<le> clock (w_down\<lparr>clock := 30000, n_connects := 3,
        logs := [(WARNING, ''DB not ready (attempt %d): %s'',
                   [ArgInt 1, ArgExc (OperationalError ''connection refused'')]),
                 (WARNING, ''DB not ready (attempt %d): %s'',
                   [ArgInt 2, ArgExc (OperationalError ''connection refused'')]),
                 (WARNING, ''DB not ready (attempt %d): %s'',
                   [ArgInt 3, ArgExc (OperationalError ''connection refused'')])]\<rparr>)"
    by auto
  show ?thesis using e1 e2 a b get_connection_retry get_connection_down by simp
qed

text \<open>
  C8 as stated fails: with \<open>DB_USER\<close>, \<open>DB_PASSWORD\<close> and \<open>DB_HOST\<close> missing, the call
  neither returns a connection nor raises a \<open>ConnectionError\<close>; the resolver's error
  leaves \<open>get_connection\<close> before any attempt.
\<close>

theorem get_connection_outcome_counterexample:
  "get_connection 30 (sample_world env_only_name script_third_time fresh_server) =
     (Inl (EnvironmentError
        ''Missing required env vars: DB_USER, DB_PASSWORD, DB_HOST (or provide DATABASE_URL)''),
      sample_world env_only_name script_third_time fresh_server)"
  by (simp add: get_connection_def sample_world_def parse_env_only_name)

text \<open>
  C10 (as amended). A call of \<open>get_connection\<close> with a non-positive \<open>max_wait_seconds\<close>
  whose configuration resolves finds the deadline passed at the first check: it makes
  no attempt, logs nothing, leaves the clock where it was, and raises the
  \<open>ConnectionError\<close> whose message embeds \<open>None\<close>.
\<close>

theorem get_connection_nonpositive_wait:
  assumes "max_wait_seconds \<le> 0"
    and "parse_db_env (environ_of w) = Inr cfg"
  shows "get_connection max_wait_seconds w =
    (Inl (ConnectionError ''Could not connect to DB within timeout: None''), w)"
  using assms by (simp add: get_connection_def connect_loop.simps)

theorem get_connection_nonpositive_wait_witness:
  "(0::int) \<le> 0 \<and> parse_db_env (environ_of w_retry) = Inr cfg_no_port \<and>
   get_connection 0 w_retry =
     (Inl (ConnectionError ''Could not connect to DB within timeout: None''), w_retry) \<and>
   (- 5::int) \<le> 0 \<and>
   get_connection (- 5) w_retry =
     (Inl (ConnectionError ''Could not connect to DB within timeout: None''), w_retry)"
proof -
  have e1: "parse_db_env (environ_of w_retry) = Inr cfg_no_port"
    by (simp add: w_retry_def sample_world_def parse_env_no_port)
  show ?thesis
    using get_connection_nonpositive_wait[of 0 w_retry cfg_no_port]
      get_connection_nonpositive_wait[of "- 5" w_retry cfg_no_port] e1
    by simp
qed

text \<open>
  C10 as stated fails: with a connection string of scheme \<open>mysql\<close> and
  \<open>max_wait_seconds = 0\<close> the exception raised is the resolver's \<open>ValueError\<close>, not a
  \<open>ConnectionError\<close>.
\<close>

theorem get_connection_nonpositive_wait_counterexample:
  "get_connection 0 (sample_world env_mysql script_third_time fresh_server) =
     (Inl (ValueError ''Unsupported scheme in DATABASE_URL: mysql''),
      sample_world env_mysql script_third_time fresh_server)"
  by (simp add: get_connection_def sample_world_def parse_env_mysql)

section \<open>Seeding statuses\<close>










section \<open>Seeding tasks\<close>


















section \<open>Seeding users\<close>




















section \<open>Transactions and the seeder's entry point\<close>

lemma tx_step_refl: "\<not> autocommit c \<Longrightarrow> tx_step c c"
  by (simp add: tx_step_def)


lemma stmt_failed_tx: "\<not> autocommit c \<Longrightarrow> tx_step c (stmt_failed c)"
  by (simp add: tx_step_def stmt_failed_def)

lemma stmt_done_tx: "\<not> autocommit c \<Longrightarrow> tx_step c (stmt_done d c)"
  by (simp add: tx_step_def stmt_done_def)

lemma stmt_guard_tx: "\<not> autocommit c \<Longrightarrow> stmt_guard c = Some (e, c') \<Longrightarrow> tx_step c c'"
  by (auto simp: stmt_guard_def tx_step_refl stmt_failed_tx split: if_splits)

lemma seq_tx:
  "\<not> autocommit c \<Longrightarrow> tx_step c (c\<lparr>status_seq := i\<rparr>)"
  "\<not> autocommit c \<Longrightarrow> tx_step c (c\<lparr>users_seq := i\<rparr>)"
  "\<not> autocommit c \<Longrightarrow> tx_step c (c\<lparr>tasks_seq := i\<rparr>)"
  by (simp_all add: tx_step_def)

lemma tx_step_seq_failed:
  "\<not> autocommit c \<Longrightarrow> tx_step c (stmt_failed (c\<lparr>status_seq := i\<rparr>))"
  "\<not> autocommit c \<Longrightarrow> tx_step c (stmt_failed (c\<lparr>users_seq := i\<rparr>))"
  "\<not> autocommit c \<Longrightarrow> tx_step c (stmt_failed (c\<lparr>tasks_seq := i\<rparr>))"
  "\<not> autocommit c \<Longrightarrow> tx_step c (stmt_done d (c\<lparr>status_seq := i\<rparr>))"
  "\<not> autocommit c \<Longrightarrow> tx_step c (stmt_done d (c\<lparr>users_seq := i\<rparr>))"
  "\<not> autocommit c \<Longrightarrow> tx_step c (stmt_done d (c\<lparr>tasks_seq := i\<rparr>))"
  by (simp_all add: tx_step_def stmt_failed_def stmt_done_def)

lemmas tx_intros = tx_step_refl stmt_failed_tx stmt_done_tx tx_step_seq_failed






lemma execute_ddl_tx: "\<not> autocommit c \<Longrightarrow> execute_ddl s c = (r, c') \<Longrightarrow> tx_step c c'"
  by (cases "stmt_guard c"; cases s)
     (auto simp: tx_intros split: if_splits dest: stmt_guard_tx)

lemma execute_batch_tx:
  assumes stmt: "\<And>a c r c'. \<not> autocommit c \<Longrightarrow> stmt a c = (r, c') \<Longrightarrow> tx_step c c'"
  shows "\<not> autocommit c \<Longrightarrow> execute_batch stmt as c = (r, c') \<Longrightarrow> tx_step c c'"
proof (induction as arbitrary: c)
  case Nil
  then show ?case by (simp add: tx_step_refl)
next
  case (Cons a as)
  obtain r1 c1 where s: "stmt a c = (r1, c1)" by (cases "stmt a c")
  from stmt[OF Cons.prems(1) s] have t: "tx_step c c1" .
  show ?case
  proof (cases r1)
    case (Inl e)
    with s Cons.prems(2) t show ?thesis by auto
  next
    case (Inr u)
    with s Cons.prems(2) have "execute_batch stmt as c1 = (r, c')" by simp
    from Cons.IH[OF _ this] t show ?thesis
      by (auto simp: tx_step_def)
  qed
qed




lemma batch_ddl_tx:
  assumes "\<not> autocommit c" "execute_batch execute_ddl as c = (r, c')"
  shows "tx_step c c'"
proof (rule execute_batch_tx[where stmt = execute_ddl])
  show "\<And>a c r c'. \<not> autocommit c \<Longrightarrow> execute_ddl a c = (r, c') \<Longrightarrow> tx_step c c'"
    by (rule execute_ddl_tx)
qed (fact assms)+



















section \<open>Schema bootstrapper: outcome\<close>

lemma get_db_connection_conn:
  "get_db_connection w = (Inr conn, w1) \<Longrightarrow> conn = new_connection (the_server w)"
  by (auto simp: get_db_connection_def psycopg2_connect_def Let_def
        split: sum.splits prod.splits option.splits)

lemma execute_ddl_Inr:
  "execute_ddl (CreateTableIfNotExists t refs) c = (Inr (), c') \<Longrightarrow>
     tables (working c') = insert t (tables (working c)) \<and> \<not> aborted c' \<and> \<not> closed c' \<and>
     autocommit c' = autocommit c"
  by (auto simp: stmt_guard_def stmt_done_def stmt_failed_def create_empty_def Let_def
        split: option.splits if_splits)

lemma ddl_statements_Inr:
  assumes "execute_batch execute_ddl DDL_STATEMENTS c = (Inr (), c')"
  shows "{''users'', ''status'', ''tasks''} \<subseteq> tables (working c') \<and> \<not> aborted c' \<and>
     \<not> closed c' \<and> autocommit c' = autocommit c"
proof -
  from assms obtain c1 where a: "execute_ddl (CreateTableIfNotExists ''users'' []) c = (Inr (), c1)"
    and r1: "execute_batch execute_ddl
       [CreateTableIfNotExists ''status'' [],
        CreateTableIfNotExists ''tasks'' [''status'', ''users'']] c1 = (Inr (), c')"
    unfolding DDL_STATEMENTS_def
    by (cases "execute_ddl (CreateTableIfNotExists ''users'' []) c";
        cases "fst (execute_ddl (CreateTableIfNotExists ''users'' []) c)") auto
  from r1 obtain c2 where b: "execute_ddl (CreateTableIfNotExists ''status'' []) c1 = (Inr (), c2)"
    and r2: "execute_batch execute_ddl
       [CreateTableIfNotExists ''tasks'' [''status'', ''users'']] c2 = (Inr (), c')"
    by (cases "execute_ddl (CreateTableIfNotExists ''status'' []) c1";
        cases "fst (execute_ddl (CreateTableIfNotExists ''status'' []) c1)") auto
  from r2 have c: "execute_ddl (CreateTableIfNotExists ''tasks'' [''status'', ''users'']) c2 = (Inr (), c')"
    by (cases "execute_ddl (CreateTableIfNotExists ''tasks'' [''status'', ''users'']) c2";
        cases "fst (execute_ddl (CreateTableIfNotExists ''tasks'' [''status'', ''users'']) c2)") auto
  from execute_ddl_Inr[OF a] execute_ddl_Inr[OF b] execute_ddl_Inr[OF c]
  show ?thesis by auto
qed

lemma bootstrap_main_fails:
  assumes g: "get_db_connection w = (Inr conn, w1)"
    and b: "execute_batch execute_ddl DDL_STATEMENTS conn = (Inl e, c1)"
  shows "\<exists>c w'. bootstrap_main w = (1, Some c, w') \<and> committed c = committed (the_server w)"
proof -
  from get_db_connection_conn[OF g] have a: "\<not> autocommit conn" "\<not> closed conn"
    "committed conn = committed (the_server w)"
    by (simp_all add: new_connection_def)
  from batch_ddl_tx[OF a(1) b] a have t: "committed c1 = committed (the_server w)" "\<not> closed c1"
    by (simp_all add: tx_step_def)
  from a(2) b have ct: "create_tables conn DDL_STATEMENTS = (Inl e, c1)"
    by (simp add: create_tables_def cursor_def)
  define c2 where "c2 = c1\<lparr>aborted := False, working := committed c1\<rparr>"
  from t have "with_exit (Inl e) c1 = (Inl e, c2)"
    by (simp add: with_exit_def rollback_def c2_def)
  with g ct have "bootstrap_main w =
      (1, Some c2, log ERROR ''Failed to create tables: %s'' [ArgExc e] w1)"
    by (simp add: bootstrap_main_def)
  moreover have "committed c2 = committed (the_server w)" using t by (simp add: c2_def)
  ultimately show ?thesis by blast
qed

lemma bootstrap_outcomeI:
  assumes "bootstrap_main w = (code, Some c, w')" and "code = 0 \<or> code = 1"
    and "\<forall>e c1. execute_batch execute_ddl DDL_STATEMENTS conn = (Inl e, c1) \<longrightarrow>
            code = 1 \<and> committed c = committed (the_server w)"
    and "code = 0 \<longleftrightarrow>
            (\<exists>c1 c2 c3. execute_batch execute_ddl DDL_STATEMENTS conn = (Inr (), c1) \<and>
               commit c1 = (Inr (), c2) \<and> commit c2 = (Inr (), c3))"
    and "code = 0 \<longrightarrow> {''users'', ''status'', ''tasks''} \<subseteq> tables (committed c)"
  shows "\<exists>code c w'. bootstrap_main w = (code, Some c, w') \<and> (code = 0 \<or> code = 1) \<and>
         (\<forall>e c1. execute_batch execute_ddl DDL_STATEMENTS conn = (Inl e, c1) \<longrightarrow>
            code = 1 \<and> committed c = committed (the_server w)) \<and>
         (code = 0 \<longleftrightarrow>
            (\<exists>c1 c2 c3. execute_batch execute_ddl DDL_STATEMENTS conn = (Inr (), c1) \<and>
               commit c1 = (Inr (), c2) \<and> commit c2 = (Inr (), c3))) \<and>
         (code = 0 \<longrightarrow> {''users'', ''status'', ''tasks''} \<subseteq> tables (committed c))"
proof (intro exI conjI)
  show "bootstrap_main w = (code, Some c, w')" by (rule assms(1))
  show "code = 0 \<or> code = 1" by (rule assms(2))
  show "\<forall>e c1. execute_batch execute_ddl DDL_STATEMENTS conn = (Inl e, c1) \<longrightarrow>
            code = 1 \<and> committed c = committed (the_server w)" by (rule assms(3))
  show "code = 0 \<longleftrightarrow>
            (\<exists>c1 c2 c3. execute_batch execute_ddl DDL_STATEMENTS conn = (Inr (), c1) \<and>
               commit c1 = (Inr (), c2) \<and> commit c2 = (Inr (), c3))" by (rule assms(4))
  show "code = 0 \<longrightarrow> {''users'', ''status'', ''tasks''} \<subseteq> tables (committed c)"
    by (rule assms(5))
qed

lemma bootstrap_main_code:
  assumes g: "get_db_connection w = (Inr conn, w1)"
  shows "\<exists>code c w'. bootstrap_main w = (code, Some c, w') \<and> (code = 0 \<or> code = 1) \<and>
         (\<forall>e c1. execute_batch execute_ddl DDL_STATEMENTS conn = (Inl e, c1) \<longrightarrow>
            code = 1 \<and> committed c = committed (the_server w)) \<and>
         (code = 0 \<longleftrightarrow>
            (\<exists>c1 c2 c3. execute_batch execute_ddl DDL_STATEMENTS conn = (Inr (), c1) \<and>
               commit c1 = (Inr (), c2) \<and> commit c2 = (Inr (), c3))) \<and>
         (code = 0 \<longrightarrow> {''users'', ''status'', ''tasks''} \<subseteq> tables (committed c))"
proof -
  from get_db_connection_conn[OF g] have a: "\<not> autocommit conn" "\<not> closed conn"
    by (simp_all add: new_connection_def)
  obtain r c1 where b: "execute_batch execute_ddl DDL_STATEMENTS conn = (r, c1)"
    by (cases "execute_batch execute_ddl DDL_STATEMENTS conn")
  show ?thesis
  proof (cases r)
    case (Inl e)
    from bootstrap_main_fails[OF g b[unfolded Inl]] obtain c w' where
      m: "bootstrap_main w = (1, Some c, w')" "committed c = committed (the_server w)" by blast
    show ?thesis
    proof (rule bootstrap_outcomeI[OF m(1)])
      show "(1::int) = 0 \<or> (1::int) = 1" by simp
      show "\<forall>e c1. execute_batch execute_ddl DDL_STATEMENTS conn = (Inl e, c1) \<longrightarrow>
            (1::int) = 1 \<and> committed c = committed (the_server w)" using m(2) by simp
      show "(1::int) = 0 \<longleftrightarrow>
            (\<exists>c1 c2 c3. execute_batch execute_ddl DDL_STATEMENTS conn = (Inr (), c1) \<and>
               commit c1 = (Inr (), c2) \<and> commit c2 = (Inr (), c3))" using b Inl by simp
      show "(1::int) = 0 \<longrightarrow> {''users'', ''status'', ''tasks''} \<subseteq> tables (committed c)"
        by simp
    qed
  next
    case (Inr u)
    have nf: "\<forall>e c1'. execute_batch execute_ddl DDL_STATEMENTS conn = (Inl e, c1') \<longrightarrow>
            code = 1 \<and> committed c = committed (the_server w)" for code :: int and c
      using b Inr by simp
    from ddl_statements_Inr[OF b[unfolded Inr, simplified]]
    have t: "{''users'', ''status'', ''tasks''} \<subseteq> tables (working c1)" "\<not> aborted c1" "\<not> closed c1"
      by auto
    obtain r2 c2 where k1: "commit c1 = (r2, c2)" by (cases "commit c1")
    show ?thesis
    proof (cases r2)
      case (Inl e)
      with k1 a b Inr have ct: "create_tables conn DDL_STATEMENTS = (Inl e, c2)"
        by (simp add: create_tables_def cursor_def)
      from k1 Inl t have "\<not> closed c2" by (auto simp: commit_def split: if_splits)
      then obtain c3 where "with_exit (Inl e) c2 = (Inl e, c3)"
        by (simp add: with_exit_def rollback_def)
      with g ct have m: "bootstrap_main w =
        (1, Some c3, log ERROR ''Failed to create tables: %s'' [ArgExc e] w1)"
        by (simp add: bootstrap_main_def)
      show ?thesis
      proof (rule bootstrap_outcomeI[OF m])
        show "(1::int) = 0 \<or> (1::int) = 1" by simp
        show "\<forall>e c1. execute_batch execute_ddl DDL_STATEMENTS conn = (Inl e, c1) \<longrightarrow>
            (1::int) = 1 \<and> committed c3 = committed (the_server w)" by (rule nf)
        show "(1::int) = 0 \<longleftrightarrow>
            (\<exists>c1 c2 c3. execute_batch execute_ddl DDL_STATEMENTS conn = (Inr (), c1) \<and>
               commit c1 = (Inr (), c2) \<and> commit c2 = (Inr (), c3))"
          using b Inr k1 Inl by simp
        show "(1::int) = 0 \<longrightarrow> {''users'', ''status'', ''tasks''} \<subseteq> tables (committed c3)"
          by simp
      qed
    next
      case r2: (Inr u2)
      with k1 a b Inr have ct: "create_tables conn DDL_STATEMENTS = (Inr (), c2)"
        by (simp add: create_tables_def cursor_def)
      from k1 r2 t have c2: "committed c2 = working c1" "working c2 = working c1"
        "\<not> closed c2" "\<not> aborted c2"
        by (auto simp: commit_def split: if_splits)
      obtain r3 c3 where k2: "commit c2 = (r3, c3)" by (cases "commit c2")
      show ?thesis
      proof (cases r3)
        case (Inl e)
        with g ct k2 have m: "bootstrap_main w =
          (1, Some c3, log ERROR ''Failed to create tables: %s'' [ArgExc e]
             (log INFO ''Tables created successfully (or already existed).'' [] w1))"
          by (simp add: bootstrap_main_def with_exit_def Let_def)
        show ?thesis
        proof (rule bootstrap_outcomeI[OF m])
          show "(1::int) = 0 \<or> (1::int) = 1" by simp
          show "\<forall>e c1. execute_batch execute_ddl DDL_STATEMENTS conn = (Inl e, c1) \<longrightarrow>
            (1::int) = 1 \<and> committed c3 = committed (the_server w)" by (rule nf)
          show "(1::int) = 0 \<longleftrightarrow>
            (\<exists>c1 c2 c3. execute_batch execute_ddl DDL_STATEMENTS conn = (Inr (), c1) \<and>
               commit c1 = (Inr (), c2) \<and> commit c2 = (Inr (), c3))"
            using b Inr k1 r2 k2 Inl by simp
          show "(1::int) = 0 \<longrightarrow> {''users'', ''status'', ''tasks''} \<subseteq> tables (committed c3)"
            by simp
        qed
      next
        case r3: (Inr u3)
        with g ct k2 have m: "bootstrap_main w =
          (0, Some c3, log INFO ''Tables created successfully (or already existed).'' [] w1)"
          by (simp add: bootstrap_main_def with_exit_def Let_def)
        from k2 r3 c2 have "committed c3 = working c1"
          by (auto simp: commit_def split: if_splits)
        with t have tb: "{''users'', ''status'', ''tasks''} \<subseteq> tables (committed c3)"
          by simp
        have ex: "\<exists>c1 c2 c3. execute_batch execute_ddl DDL_STATEMENTS conn = (Inr (), c1) \<and>
          commit c1 = (Inr (), c2) \<and> commit c2 = (Inr (), c3)"
          using b Inr k1 r2 k2 r3 by (intro exI[of _ c1] exI[of _ c2] exI[of _ c3]) simp
        show ?thesis
        proof (rule bootstrap_outcomeI[OF m])
          show "(0::int) = 0 \<or> (0::int) = 1" by simp
          show "\<forall>e c1. execute_batch execute_ddl DDL_STATEMENTS conn = (Inl e, c1) \<longrightarrow>
            (0::int) = 1 \<and> committed c3 = committed (the_server w)" by (rule nf)
          show "(0::int) = 0 \<longleftrightarrow>
            (\<exists>c1 c2 c3. execute_batch execute_ddl DDL_STATEMENTS conn = (Inr (), c1) \<and>
               commit c1 = (Inr (), c2) \<and> commit c2 = (Inr (), c3))"
            using ex by simp
          show "(0::int) = 0 \<longrightarrow> {''users'', ''status'', ''tasks''} \<subseteq> tables (committed c3)"
            using tb by simp
        qed
      qed
    qed
  qed
qed

text \<open>
  C9. When \<open>main\<close> of the bootstrapper has a connection: it returns 0 or 1; if a
  statement of \<open>DDL_STATEMENTS\<close> fails, it returns 1 and the committed data is what
  the server held before, so no table of the sequence is committed; it returns 0
  exactly when the three statements and the two commits succeed, and then the three
  tables are committed. Without a connection it returns 1.
\<close>

theorem bootstrap_main_outcome:
  "(get_db_connection w = (Inr conn, w1) \<longrightarrow>
      (\<exists>code c w'. bootstrap_main w = (code, Some c, w') \<and> (code = 0 \<or> code = 1) \<and>
         (\<forall>e c1. execute_batch execute_ddl DDL_STATEMENTS conn = (Inl e, c1) \<longrightarrow>
            code = 1 \<and> committed c = committed (the_server w)) \<and>
         (code = 0 \<longleftrightarrow>
            (\<exists>c1 c2 c3. execute_batch execute_ddl DDL_STATEMENTS conn = (Inr (), c1) \<and>
               commit c1 = (Inr (), c2) \<and> commit c2 = (Inr (), c3))) \<and>
         (code = 0 \<longrightarrow> {''users'', ''status'', ''tasks''} \<subseteq> tables (committed c)))) \<and>
   (get_db_connection w = (Inl e0, w1) \<longrightarrow> (\<exists>w'. bootstrap_main w = (1, None, w')))"
proof (rule conjI; rule impI)
  assume "get_db_connection w = (Inr conn, w1)"
  then show "\<exists>code c w'. bootstrap_main w = (code, Some c, w') \<and> (code = 0 \<or> code = 1) \<and>
         (\<forall>e c1. execute_batch execute_ddl DDL_STATEMENTS conn = (Inl e, c1) \<longrightarrow>
            code = 1 \<and> committed c = committed (the_server w)) \<and>
         (code = 0 \<longleftrightarrow>
            (\<exists>c1 c2 c3. execute_batch execute_ddl DDL_STATEMENTS conn = (Inr (), c1) \<and>
               commit c1 = (Inr (), c2) \<and> commit c2 = (Inr (), c3))) \<and>
         (code = 0 \<longrightarrow> {''users'', ''status'', ''tasks''} \<subseteq> tables (committed c))"
    by (rule bootstrap_main_code)
next
  assume "get_db_connection w = (Inl e0, w1)"
  then show "\<exists>w'. bootstrap_main w = (1, None, w')"
    by (simp add: bootstrap_main_def)
qed

lemmas w_boot_defs = w_boot_fault_def w_boot_def sample_world_def env_full_def script_up_def

lemmas faulty_server_defs = faulty_server_def fresh_server_def empty_database_def
  new_connection_def

lemmas execute_ddl_eval = DDL_STATEMENTS_def stmt_guard_def stmt_done_def stmt_failed_def
  create_empty_def Let_def

lemma get_db_connection_fault:
  "get_db_connection w_boot_fault =
     (Inr (new_connection faulty_server), w_boot_fault\<lparr>clock := 50, n_connects := 1\<rparr>)"
  by (simp add: get_db_connection_def environ_get_def psycopg2_connect_def w_boot_defs)

lemma get_db_connection_boot:
  "get_db_connection w_boot =
     (Inr (new_connection fresh_server), w_boot\<lparr>clock := 50, n_connects := 1\<rparr>)"
  by (simp add: get_db_connection_def environ_get_def psycopg2_connect_def w_boot_defs)

lemma ddl_fault:
  "execute_batch execute_ddl DDL_STATEMENTS (new_connection faulty_server) =
     (Inl (OperationalError ''server closed the connection unexpectedly''),
      (new_connection faulty_server)\<lparr>nstmt := 3, aborted := True,
         working := empty_database\<lparr>tables := {''status'', ''users''}\<rparr>\<rparr>)"
  by (simp add: execute_ddl_eval faulty_server_defs)

lemma ddl_boot:
  "execute_batch execute_ddl DDL_STATEMENTS (new_connection fresh_server) =
     (Inr (),
      (new_connection fresh_server)\<lparr>nstmt := 3,
         working := empty_database\<lparr>tables := {''tasks'', ''status'', ''users''}\<rparr>\<rparr>)"
  by (simp add: execute_ddl_eval faulty_server_defs)

lemma commits_boot:
  "commit ((new_connection fresh_server)\<lparr>nstmt := 3,
         working := empty_database\<lparr>tables := {''tasks'', ''status'', ''users''}\<rparr>\<rparr>) =
     (Inr (), (new_connection fresh_server)\<lparr>
         committed := empty_database\<lparr>tables := {''tasks'', ''status'', ''users''}\<rparr>,
         nstmt := 4,
         working := empty_database\<lparr>tables := {''tasks'', ''status'', ''users''}\<rparr>\<rparr>)"
  "commit ((new_connection fresh_server)\<lparr>
         committed := empty_database\<lparr>tables := {''tasks'', ''status'', ''users''}\<rparr>,
         nstmt := 4,
         working := empty_database\<lparr>tables := {''tasks'', ''status'', ''users''}\<rparr>\<rparr>) =
     (Inr (), (new_connection fresh_server)\<lparr>
         committed := empty_database\<lparr>tables := {''tasks'', ''status'', ''users''}\<rparr>,
         nstmt := 5,
         working := empty_database\<lparr>tables := {''tasks'', ''status'', ''users''}\<rparr>\<rparr>)"
  by (simp_all add: commit_def faulty_server_defs)

theorem bootstrap_main_outcome_witness:
  "get_db_connection w_boot_fault =
     (Inr (new_connection faulty_server), w_boot_fault\<lparr>clock := 50, n_connects := 1\<rparr>) \<and>
   execute_batch execute_ddl DDL_STATEMENTS (new_connection faulty_server) =
     (Inl (OperationalError ''server closed the connection unexpectedly''),
      (new_connection faulty_server)\<lparr>nstmt := 3, aborted := True,
         working := empty_database\<lparr>tables := {''status'', ''users''}\<rparr>\<rparr>) \<and>
   (\<exists>c w'. bootstrap_main w_boot_fault = (1, Some c, w') \<and> committed c = empty_database) \<and>
   get_db_connection w_boot =
     (Inr (new_connection fresh_server), w_boot\<lparr>clock := 50, n_connects := 1\<rparr>) \<and>
   (\<exists>c w'. bootstrap_main w_boot = (0, Some c, w') \<and>
      {''users'', ''status'', ''tasks''} \<subseteq> tables (committed c))"
proof -
  have s: "committed (the_server w_boot_fault) = empty_database"
    by (simp add: w_boot_defs faulty_server_defs)
  note t1 = bootstrap_main_outcome[of w_boot_fault "new_connection faulty_server"
      "w_boot_fault\<lparr>clock := 50, n_connects := 1\<rparr>", THEN conjunct1, THEN mp,
      OF get_db_connection_fault]
  from t1 obtain code c w' where m: "bootstrap_main w_boot_fault = (code, Some c, w')"
    "code = 0 \<or> code = 1"
    "\<forall>e c1. execute_batch execute_ddl DDL_STATEMENTS (new_connection faulty_server) = (Inl e, c1) \<longrightarrow>
            code = 1 \<and> committed c = committed (the_server w_boot_fault)"
    by (elim exE conjE) (rule that; assumption)
  from m(3) ddl_fault s have "code = 1 \<and> committed c = empty_database" by simp
  with m(1) have a: "\<exists>c w'. bootstrap_main w_boot_fault = (1, Some c, w') \<and> committed c = empty_database"
    by blast
  note t2 = bootstrap_main_outcome[of w_boot "new_connection fresh_server"
      "w_boot\<lparr>clock := 50, n_connects := 1\<rparr>", THEN conjunct1, THEN mp,
      OF get_db_connection_boot]
  from t2 obtain code2 c2 w2 where m2: "bootstrap_main w_boot = (code2, Some c2, w2)"
    "code2 = 0 \<or> code2 = 1"
    "\<forall>e c1. execute_batch execute_ddl DDL_STATEMENTS (new_connection fresh_server) = (Inl e, c1) \<longrightarrow>
            code2 = 1 \<and> committed c2 = committed (the_server w_boot)"
    "code2 = 0 \<longleftrightarrow>
            (\<exists>c1 c2 c3. execute_batch execute_ddl DDL_STATEMENTS (new_connection fresh_server) = (Inr (), c1) \<and>
               commit c1 = (Inr (), c2) \<and> commit c2 = (Inr (), c3))"
    "code2 = 0 \<longrightarrow> {''users'', ''status'', ''tasks''} \<subseteq> tables (committed c2)"
    by (elim exE conjE) (rule that; assumption)
  have "\<exists>c1 c2 c3. execute_batch execute_ddl DDL_STATEMENTS (new_connection fresh_server) = (Inr (), c1) \<and>
               commit c1 = (Inr (), c2) \<and> commit c2 = (Inr (), c3)"
    using ddl_boot commits_boot by (intro exI conjI)
  with m2(4) have z: "code2 = 0" by (rule iffD2)
  from m2(5) z have "{''users'', ''status'', ''tasks''} \<subseteq> tables (committed c2)" by (rule mp)
  with m2(1) z have b: "\<exists>c w'. bootstrap_main w_boot = (0, Some c, w') \<and>
      {''users'', ''status'', ''tasks''} \<subseteq> tables (committed c)" by blast
  from a b get_db_connection_fault get_db_connection_boot ddl_fault show ?thesis by blast
qed

end
